theory Spec2Isabelle
  imports Complex_Main "HOL-Library.Product_Lexorder"
begin

section \<open>Python values, exceptions and strings\<close>

text \<open>
  The program is a single Python module, \<^verbatim>\<open>app.py\<close>. Its functions talk to four
  things outside the module: the language-model provider, an SMTP server, a subprocess
  that posts to Telegram, and an SQLite file. The embedding keeps every function of the
  module under its own name, threads the mutable world (database, wall clock, standard
  output) through the calls as a record, and takes what the outside world answers as a
  record of functions, \<open>env\<close>.

  Values that come out of \<^verbatim>\<open>json.loads\<close> are dynamically typed; \<open>pyval\<close> is that universe.
  A dictionary is the list of its items (the keys of a Python dictionary are distinct).
  Floats are idealised as real numbers.
\<close>

datatype pyval =
    PNone
  | PBool bool
  | PInt int
  | PFloat real
  | PStr string
  | PList "pyval list"
  | PDict "(string \<times> pyval) list"

text \<open>
  An exception is its class name and the text \<^verbatim>\<open>str(e)\<close> gives. Only subclasses of
  \<^verbatim>\<open>Exception\<close> are modelled: they are the ones \<^verbatim>\<open>except Exception\<close> catches.
\<close>

datatype exn = Exn (exn_class: string) (exn_str: string)

fun type_name :: "pyval \<Rightarrow> string" where
  "type_name PNone = ''NoneType''"
| "type_name (PBool _) = ''bool''"
| "type_name (PInt _) = ''int''"
| "type_name (PFloat _) = ''float''"
| "type_name (PStr _) = ''str''"
| "type_name (PList _) = ''list''"
| "type_name (PDict _) = ''dict''"

text \<open>\<^verbatim>\<open>str(n)\<close> for an integer: decimal digits, with a minus sign for a negative number.\<close>

definition digit_char :: "nat \<Rightarrow> char" where
  "digit_char d = ''0123456789'' ! d"

fun str_nat :: "nat \<Rightarrow> string" where
  "str_nat n = (if n < 10 then [digit_char n] else str_nat (n div 10) @ [digit_char (n mod 10)])"

definition str_int :: "int \<Rightarrow> string" where
  "str_int i = (if i < 0 then CHR ''-'' # str_nat (nat (- i)) else str_nat (nat i))"

text \<open>\<^verbatim>\<open>sub in s\<close>, \<^verbatim>\<open>s.split(sep)\<close>, \<^verbatim>\<open>xs[i]\<close> and \<^verbatim>\<open>s.strip()\<close>.\<close>

definition startswith :: "string \<Rightarrow> string \<Rightarrow> bool" where
  "startswith s p = (take (length p) s = p)"

fun py_in :: "string \<Rightarrow> string \<Rightarrow> bool" where
  "py_in sub [] = (sub = [])"
| "py_in sub (c # cs) = (startswith (c # cs) sub \<or> py_in sub cs)"

function split_from :: "string \<Rightarrow> string \<Rightarrow> string \<Rightarrow> string list" where
  "split_from sep cur [] = [rev cur]"
| "split_from sep cur (c # cs) =
     (if sep \<noteq> [] \<and> startswith (c # cs) sep
      then rev cur # split_from sep [] (drop (length sep) (c # cs))
      else split_from sep (c # cur) cs)"
  by pat_completeness auto
termination
  by (relation "measure (\<lambda>(sep, cur, s). length s)") auto

definition py_split :: "string \<Rightarrow> string \<Rightarrow> string list" where
  "py_split s sep = split_from sep [] s"

definition py_index :: "'a list \<Rightarrow> nat \<Rightarrow> exn + 'a" where
  "py_index xs i =
     (if i < length xs then Inr (xs ! i) else Inl (Exn ''IndexError'' ''list index out of range''))"

definition isspace :: "char \<Rightarrow> bool" where
  "isspace c = (let n = (of_char c :: nat) in (9 \<le> n \<and> n \<le> 13) \<or> (28 \<le> n \<and> n \<le> 32))"

definition strip :: "string \<Rightarrow> string" where
  "strip s = rev (dropWhile isspace (rev (dropWhile isspace s)))"

text \<open>
  The fence handling of \<^verbatim>\<open>process_lead_with_ai\<close> (lines 207 to 211): a tagged fence is
  looked for first, then a bare one, and a text with neither is left as it is.
\<close>

definition fence_json :: string where
  "fence_json = ''```json''"

definition fence :: string where
  "fence = ''```''"

definition between_fences :: "string \<Rightarrow> string \<Rightarrow> exn + string" where
  "between_fences response_text opening =
     (case py_index (py_split response_text opening) 1 of
        Inl e \<Rightarrow> Inl e
      | Inr rest \<Rightarrow>
          (case py_index (py_split rest fence) 0 of
             Inl e \<Rightarrow> Inl e
           | Inr inner \<Rightarrow> Inr (strip inner)))"

definition extract_json :: "string \<Rightarrow> exn + string" where
  "extract_json response_text =
     (if py_in fence_json response_text then between_fences response_text fence_json
      else if py_in fence response_text then between_fences response_text fence
      else Inr response_text)"

section \<open>Configuration, requests and the outside world\<close>

text \<open>
  The module reads its configuration from the environment once, at import (lines 28 to
  38). A variable that is not set is \<open>None\<close>. The SMTP host, port and sender address are
  only used inside the SMTP session, which belongs to the outside world here.
\<close>

record config =
  ANTHROPIC_API_KEY :: "string option"
  SMTP_USER :: "string option"
  SMTP_PASSWORD :: "string option"
  TELEGRAM_CHAT_ID :: "string option"

text \<open>Python's truth value of an optional string: \<^verbatim>\<open>None\<close> and \<^verbatim>\<open>""\<close> are false.\<close>

definition truthy :: "string option \<Rightarrow> bool" where
  "truthy v = (case v of None \<Rightarrow> False | Some s \<Rightarrow> s \<noteq> [])"

text \<open>
  \<^verbatim>\<open>LeadSubmission\<close> (lines 43 to 49). The bounds on the fields are checked by the web
  framework before \<^verbatim>\<open>submit_lead\<close> is entered; \<^verbatim>\<open>submit_lead\<close> itself never looks at them.
\<close>

record LeadSubmission =
  name :: string
  email :: string
  company :: string
  message :: string
  phone :: "string option"

text \<open>\<^verbatim>\<open>LeadResponse\<close> (lines 52 to 57).\<close>

record LeadResponse =
  success :: bool
  response_message :: string
  lead_id :: "int option"
  response_time_ms :: "int option"

text \<open>
  What the endpoint gives back: the response model (status 200), or the
  \<^verbatim>\<open>HTTPException\<close> it raises, with its status code and detail.
\<close>

datatype outcome = Accepted LeadResponse | Rejected int string

text \<open>The dictionary \<^verbatim>\<open>process_lead_with_ai\<close> returns (lines 215 to 219).\<close>

record ai_result =
  intent_classification :: pyval
  lead_score :: pyval
  ai_response :: pyval

text \<open>The dictionary \<^verbatim>\<open>lead_data\<close> that \<^verbatim>\<open>submit_lead\<close> builds (lines 302 to 314).\<close>

record lead_data =
  ld_timestamp :: string
  ld_name :: string
  ld_email :: string
  ld_company :: string
  ld_message :: string
  ld_phone :: "string option"
  ld_lead_score :: pyval
  ld_intent_classification :: pyval
  ld_response_time_ms :: int
  ld_email_sent :: bool
  ld_ai_response :: pyval

section \<open>The leads table\<close>

text \<open>
  A value as SQLite stores it. The three columns filled from the model's answer can hold
  any storage class; the others hold what the schema of \<^verbatim>\<open>init_db\<close> declares and what
  \<^verbatim>\<open>save_lead\<close> writes. SQLite's conversion of a stored value to the affinity of its
  column (the text \<^verbatim>\<open>'8'\<close> becoming the integer 8 in \<^verbatim>\<open>lead_score\<close>) is not modelled.
  \<^verbatim>\<open>created_at\<close> is \<^verbatim>\<open>CURRENT_TIMESTAMP\<close>, the UTC time in whole seconds; it is kept as
  the number of seconds, whose order is the order of the text SQLite stores.
\<close>

datatype sqlval = SNull | SInt int | SReal real | SText string

record lead_row =
  col_id :: int
  col_timestamp :: string
  col_name :: string
  col_email :: string
  col_company :: string
  col_message :: string
  col_phone :: "string option"
  col_lead_score :: sqlval
  col_intent_classification :: sqlval
  col_response_time_ms :: "int option"
  col_email_sent :: "int option"
  col_ai_response :: sqlval
  col_created_at :: int

text \<open>
  The table with the counter SQLite keeps for an \<^verbatim>\<open>AUTOINCREMENT\<close> key (the largest
  rowid the table ever held, in \<^verbatim>\<open>sqlite_sequence\<close>). The rows are in insertion order.
\<close>

record leads_table =
  table_rows :: "lead_row list"
  table_seq :: int

text \<open>
  The world the module changes: the database file (\<open>None\<close> while it has no
  \<^verbatim>\<open>leads\<close> table), the wall clock in seconds, and what was printed.
\<close>

record world =
  db :: "leads_table option"
  clock :: real
  stdout :: "string list"

text \<open>
  The outside world's answers. \<open>messages_create\<close> is the provider call for the prompt
  built from the submission (the content blocks of the reply, or the exception raised);
  \<open>json_loads\<close> is \<^verbatim>\<open>json.loads\<close>; \<open>smtp_session\<close> is the body of the \<^verbatim>\<open>try\<close> of
  \<^verbatim>\<open>send_email_response\<close> (the exception it raises, if any) for a recipient, company
  and body; \<open>telegram_run\<close> is the body of the \<^verbatim>\<open>try\<close> of
  \<^verbatim>\<open>send_telegram_notification\<close>; \<open>insert_fault\<close> is an error of the database engine on
  the \<^verbatim>\<open>INSERT\<close> that does not come from the values (a locked or full file);
  \<open>isoformat\<close> is \<^verbatim>\<open>datetime.utcnow().isoformat()\<close> at a clock reading; \<open>duration\<close> is
  the time each outside call takes; \<open>tie_order\<close> is the order in which the engine
  returns rows whose \<^verbatim>\<open>ORDER BY\<close> keys are equal, which SQL leaves open.
\<close>

datatype call = AiCall | SmtpSession | DbInsert | TelegramRun

datatype content_block = TextBlock string | OtherBlock

record env =
  messages_create :: "LeadSubmission \<Rightarrow> exn + content_block list"
  json_loads :: "string \<Rightarrow> exn + pyval"
  smtp_session :: "string \<Rightarrow> string \<Rightarrow> pyval \<Rightarrow> exn option"
  telegram_run :: "lead_data \<Rightarrow> exn option"
  insert_fault :: "exn option"
  isoformat :: "real \<Rightarrow> string"
  duration :: "call \<Rightarrow> real"
  tie_order :: "lead_row \<Rightarrow> int"

definition elapse :: "env \<Rightarrow> call \<Rightarrow> world \<Rightarrow> world" where
  "elapse ev c w = w\<lparr>clock := clock w + duration ev c\<rparr>"

definition py_print :: "string \<Rightarrow> world \<Rightarrow> world" where
  "py_print s w = w\<lparr>stdout := stdout w @ [s]\<rparr>"

section \<open>The record store: \<^verbatim>\<open>init_db\<close>, \<^verbatim>\<open>save_lead\<close>, \<^verbatim>\<open>get_stats\<close>\<close>

text \<open>\<^verbatim>\<open>CREATE TABLE IF NOT EXISTS\<close>: an existing table is left as it is.\<close>

definition init_db :: "world \<Rightarrow> world" where
  "init_db w =
     (case db w of
        None \<Rightarrow> w\<lparr>db := Some \<lparr>table_rows = [], table_seq = 0\<rparr>\<rparr>
      | Some t \<Rightarrow> w)"

text \<open>
  How the \<^verbatim>\<open>sqlite3\<close> module binds a Python value to a parameter of a statement:
  \<^verbatim>\<open>None\<close>, integers (booleans are integers), floats and strings are bound; an
  integer outside 64 bits and any other type raise. The first argument is the number of
  the parameter, for the message (class and wording are those of Python 3.11).
\<close>

definition INT64_MAX :: int where
  "INT64_MAX = 9223372036854775807"

definition bind_int :: "int \<Rightarrow> exn + int" where
  "bind_int n =
     (if - INT64_MAX - 1 \<le> n \<and> n \<le> INT64_MAX then Inr n
      else Inl (Exn ''OverflowError'' ''Python int too large to convert to SQLite INTEGER''))"

fun bind_param :: "nat \<Rightarrow> pyval \<Rightarrow> exn + sqlval" where
  "bind_param i PNone = Inr SNull"
| "bind_param i (PBool b) = Inr (SInt (if b then 1 else 0))"
| "bind_param i (PInt n) = (case bind_int n of Inl e \<Rightarrow> Inl e | Inr m \<Rightarrow> Inr (SInt m))"
| "bind_param i (PFloat x) = Inr (SReal x)"
| "bind_param i (PStr s) = Inr (SText s)"
| "bind_param i v =
     Inl (Exn ''ProgrammingError''
       (''Error binding parameter '' @ str_nat i @ '': type '' @ [CHR 0x27] @ type_name v
          @ [CHR 0x27] @ '' is not supported''))"

text \<open>
  The rowid SQLite gives a new row of a table whose key is \<^verbatim>\<open>INTEGER PRIMARY KEY
  AUTOINCREMENT\<close>: one more than the largest rowid the table holds or ever held. When
  that would pass the largest 64-bit integer the insert fails.
\<close>

fun max_rowid :: "lead_row list \<Rightarrow> int" where
  "max_rowid [] = 0"
| "max_rowid (r # rs) = max (col_id r) (max_rowid rs)"

definition next_rowid :: "leads_table \<Rightarrow> int" where
  "next_rowid t = max (table_seq t) (max_rowid (table_rows t)) + 1"

definition new_row :: "int \<Rightarrow> int \<Rightarrow> lead_data \<Rightarrow> sqlval \<Rightarrow> sqlval \<Rightarrow> int \<Rightarrow> sqlval \<Rightarrow> lead_row" where
  "new_row rowid now ld score intent rt resp =
     \<lparr>col_id = rowid,
      col_timestamp = ld_timestamp ld,
      col_name = ld_name ld,
      col_email = ld_email ld,
      col_company = ld_company ld,
      col_message = ld_message ld,
      col_phone = ld_phone ld,
      col_lead_score = score,
      col_intent_classification = intent,
      col_response_time_ms = Some rt,
      col_email_sent = Some (if ld_email_sent ld then 1 else 0),
      col_ai_response = resp,
      col_created_at = now\<rparr>"

text \<open>
  \<^verbatim>\<open>save_lead\<close> (lines 86 to 112). Preparing the statement fails when the table is
  missing; then the eleven parameters are bound in order (only the seventh, eighth,
  ninth and eleventh can fail); then the row is inserted and committed. The result is
  \<^verbatim>\<open>lastrowid\<close>. Nothing is written when an exception is raised.
\<close>

definition save_lead :: "env \<Rightarrow> lead_data \<Rightarrow> world \<Rightarrow> (exn + int) \<times> world" where
  "save_lead ev ld w =
     (let w' = elapse ev DbInsert w in
      case db w of
        None \<Rightarrow> (Inl (Exn ''OperationalError'' ''no such table: leads''), w')
      | Some t \<Rightarrow>
          (case bind_param 7 (ld_lead_score ld) of
             Inl e \<Rightarrow> (Inl e, w')
           | Inr score \<Rightarrow>
          (case bind_param 8 (ld_intent_classification ld) of
             Inl e \<Rightarrow> (Inl e, w')
           | Inr intent \<Rightarrow>
          (case bind_int (ld_response_time_ms ld) of
             Inl e \<Rightarrow> (Inl e, w')
           | Inr rt \<Rightarrow>
          (case bind_param 11 (ld_ai_response ld) of
             Inl e \<Rightarrow> (Inl e, w')
           | Inr resp \<Rightarrow>
          (case insert_fault ev of
             Some e \<Rightarrow> (Inl e, w')
           | None \<Rightarrow>
               if INT64_MAX < next_rowid t
               then (Inl (Exn ''OperationalError'' ''database or disk is full''), w')
               else
                 (Inr (next_rowid t),
                  w'\<lparr>db := Some
                    \<lparr>table_rows =
                       table_rows t @ [new_row (next_rowid t) \<lfloor>clock w\<rfloor> ld score intent rt resp],
                     table_seq = next_rowid t\<rparr>\<rparr>)))))))"

text \<open>\<^verbatim>\<open>int(x)\<close> of a float: the fraction is dropped, towards zero.\<close>

definition py_int :: "real \<Rightarrow> int" where
  "py_int x = (if 0 \<le> x then \<lfloor>x\<rfloor> else \<lceil>x\<rceil>)"

record recent_lead =
  rl_name :: string
  rl_company :: string
  rl_score :: sqlval
  rl_response_time_ms :: "int option"
  rl_timestamp :: int

record stats =
  total_leads :: int
  avg_response_time_ms :: int
  emails_sent :: int
  email_success_rate :: real
  recent_leads :: "recent_lead list"

text \<open>
  The four queries of \<^verbatim>\<open>get_stats\<close> (lines 115 to 158). \<^verbatim>\<open>AVG\<close> of no rows is
  \<^verbatim>\<open>NULL\<close>, which \<^verbatim>\<open>or 0\<close> turns into 0. \<^verbatim>\<open>ORDER BY created_at DESC\<close> sorts by the
  stored second, latest first; among rows of the same second the order is the engine's.
\<close>

definition select_count :: "lead_row list \<Rightarrow> int" where
  "select_count rs = int (length rs)"

definition select_avg_response :: "lead_row list \<Rightarrow> real option" where
  "select_avg_response rs =
     (let ts = [t. Some t \<leftarrow> map col_response_time_ms rs]
      in if ts = [] then None else Some (real_of_int (sum_list ts) / real (length ts)))"

definition select_count_email_sent :: "lead_row list \<Rightarrow> int" where
  "select_count_email_sent rs = int (length (filter (\<lambda>r. col_email_sent r = Some 1) rs))"

definition order_by_created_at_desc :: "(lead_row \<Rightarrow> int) \<Rightarrow> lead_row list \<Rightarrow> lead_row list" where
  "order_by_created_at_desc tie rs = sort_key (\<lambda>r. (- col_created_at r, tie r)) rs"

definition select_recent :: "(lead_row \<Rightarrow> int) \<Rightarrow> lead_row list \<Rightarrow> lead_row list" where
  "select_recent tie rs = take 10 (order_by_created_at_desc tie rs)"

definition recent_entry :: "lead_row \<Rightarrow> recent_lead" where
  "recent_entry r =
     \<lparr>rl_name = col_name r,
      rl_company = col_company r,
      rl_score = col_lead_score r,
      rl_response_time_ms = col_response_time_ms r,
      rl_timestamp = col_created_at r\<rparr>"

definition get_stats :: "env \<Rightarrow> world \<Rightarrow> exn + stats" where
  "get_stats ev w =
     (case db w of
        None \<Rightarrow> Inl (Exn ''OperationalError'' ''no such table: leads'')
      | Some t \<Rightarrow>
          (let total = select_count (table_rows t);
               avg_response = (case select_avg_response (table_rows t) of
                                 None \<Rightarrow> 0
                               | Some a \<Rightarrow> if a \<noteq> 0 then a else 0);
               sent = select_count_email_sent (table_rows t);
               recent = map recent_entry (select_recent (tie_order ev) (table_rows t))
           in Inr \<lparr>total_leads = total,
                   avg_response_time_ms = (if avg_response \<noteq> 0 then py_int avg_response else 0),
                   emails_sent = sent,
                   email_success_rate =
                     (if 0 < total then real_of_int sent / real_of_int total * 100 else 0),
                   recent_leads = recent\<rparr>))"

section \<open>The analyzer: \<^verbatim>\<open>process_lead_with_ai\<close>\<close>

text \<open>
  \<^verbatim>\<open>message.content[0].text\<close> (line 205): an empty content list raises
  \<^verbatim>\<open>IndexError\<close>, a block that is not a text block has no \<^verbatim>\<open>text\<close>.
\<close>

definition first_text :: "content_block list \<Rightarrow> exn + string" where
  "first_text content =
     (case py_index content 0 of
        Inl e \<Rightarrow> Inl e
      | Inr (TextBlock t) \<Rightarrow> Inr t
      | Inr OtherBlock \<Rightarrow>
          Inl (Exn ''AttributeError'' ''object has no attribute text''))"

text \<open>\<^verbatim>\<open>d.get(key, default)\<close> on a dictionary.\<close>

definition dict_get :: "(string \<times> pyval) list \<Rightarrow> string \<Rightarrow> pyval \<Rightarrow> pyval" where
  "dict_get items k dflt = (case map_of items k of None \<Rightarrow> dflt | Some v \<Rightarrow> v)"

text \<open>
  Lines 213 to 219: the text is parsed, and the three fields are read with \<^verbatim>\<open>get\<close>
  and a default each. Only a dictionary has \<^verbatim>\<open>get\<close>.
\<close>

definition read_fields :: "pyval \<Rightarrow> exn + ai_result" where
  "read_fields parsed =
     (case parsed of
        PDict items \<Rightarrow>
          Inr \<lparr>intent_classification = dict_get items ''intent'' (PStr ''unknown''),
               lead_score = dict_get items ''score'' (PInt 5),
               ai_response = dict_get items ''response'' (PStr [])\<rparr>
      | v \<Rightarrow>
          Inl (Exn ''AttributeError''
            ([CHR 0x27] @ type_name v @ [CHR 0x27] @ '' object has no attribute '' @ [CHR 0x27]
               @ ''get'' @ [CHR 0x27])))"

definition parse_reply :: "env \<Rightarrow> content_block list \<Rightarrow> exn + ai_result" where
  "parse_reply ev content =
     (case first_text content of
        Inl e \<Rightarrow> Inl e
      | Inr response_text \<Rightarrow>
          (case extract_json response_text of
             Inl e \<Rightarrow> Inl e
           | Inr json_text \<Rightarrow>
               (case json_loads ev json_text of
                  Inl e \<Rightarrow> Inl e
                | Inr parsed \<Rightarrow> read_fields parsed)))"

definition process_lead_with_ai ::
  "config \<Rightarrow> env \<Rightarrow> LeadSubmission \<Rightarrow> world \<Rightarrow> (exn + ai_result) \<times> world" where
  "process_lead_with_ai cfg ev lead w =
     (if \<not> truthy (ANTHROPIC_API_KEY cfg)
      then (Inl (Exn ''ValueError'' ''ANTHROPIC_API_KEY not set''), w)
      else
        (let w' = elapse ev AiCall w in
         case messages_create ev lead of
           Inl e \<Rightarrow> (Inl e, w')
         | Inr content \<Rightarrow> (parse_reply ev content, w')))"

section \<open>The responder and the notifier\<close>

text \<open>
  \<^verbatim>\<open>send_email_response\<close> (lines 222 to 247): without both credentials nothing is
  sent; otherwise whatever the session raises is caught, printed and turned into
  \<^verbatim>\<open>False\<close>.
\<close>

definition send_email_response ::
  "config \<Rightarrow> env \<Rightarrow> string \<Rightarrow> string \<Rightarrow> string \<Rightarrow> pyval \<Rightarrow> world \<Rightarrow> bool \<times> world" where
  "send_email_response cfg ev to_email to_name company_name response_body w =
     (if \<not> (truthy (SMTP_USER cfg) \<and> truthy (SMTP_PASSWORD cfg))
      then (False, py_print ''SMTP not configured, skipping email send'' w)
      else
        (let w' = elapse ev SmtpSession w in
         case smtp_session ev to_email company_name response_body of
           None \<Rightarrow> (True, w')
         | Some e \<Rightarrow> (False, py_print (''Email send failed: '' @ exn_str e) w')))"

text \<open>
  \<^verbatim>\<open>send_telegram_notification\<close> (lines 250 to 273): it returns nothing, and every
  exception of its body is caught and printed.
\<close>

definition send_telegram_notification :: "config \<Rightarrow> env \<Rightarrow> lead_data \<Rightarrow> world \<Rightarrow> world" where
  "send_telegram_notification cfg ev ld w =
     (if \<not> truthy (TELEGRAM_CHAT_ID cfg) then w
      else
        (let w' = elapse ev TelegramRun w in
         case telegram_run ev ld of
           None \<Rightarrow> w'
         | Some e \<Rightarrow> py_print (''Telegram notification failed: '' @ exn_str e) w'))"

section \<open>The pipeline: \<^verbatim>\<open>submit_lead\<close>\<close>

text \<open>The \<^verbatim>\<open>except\<close> branch (lines 328 to 330).\<close>

definition http_500 :: "exn \<Rightarrow> world \<Rightarrow> outcome \<times> world" where
  "http_500 e w = (Rejected 500 (exn_str e), py_print (''Error processing lead: '' @ exn_str e) w)"

definition build_lead_data ::
  "string \<Rightarrow> LeadSubmission \<Rightarrow> ai_result \<Rightarrow> int \<Rightarrow> bool \<Rightarrow> lead_data" where
  "build_lead_data ts lead ai rt sent =
     \<lparr>ld_timestamp = ts,
      ld_name = name lead,
      ld_email = email lead,
      ld_company = company lead,
      ld_message = message lead,
      ld_phone = phone lead,
      ld_lead_score = lead_score ai,
      ld_intent_classification = intent_classification ai,
      ld_response_time_ms = rt,
      ld_email_sent = sent,
      ld_ai_response = ai_response ai\<rparr>"

definition thank_you :: "LeadSubmission \<Rightarrow> int \<Rightarrow> string" where
  "thank_you lead rt =
     ''Thank you! We'' @ [CHR 0x27] @ ''ve responded to '' @ email lead @ '' in '' @ str_int rt @ ''ms''"

text \<open>
  \<^verbatim>\<open>submit_lead\<close> (lines 278 to 330). \<open>start_time\<close> is the clock at entry; the second
  reading is taken when \<^verbatim>\<open>send_email_response\<close> has returned.
\<close>

definition submit_lead :: "config \<Rightarrow> env \<Rightarrow> LeadSubmission \<Rightarrow> world \<Rightarrow> outcome \<times> world" where
  "submit_lead cfg ev lead w =
     (let start_time = clock w in
      case process_lead_with_ai cfg ev lead w of
        (Inl e, w1) \<Rightarrow> http_500 e w1
      | (Inr ai, w1) \<Rightarrow>
          (case send_email_response cfg ev (email lead) (name lead) (company lead)
                  (ai_response ai) w1 of
             (sent, w2) \<Rightarrow>
               (let rt = py_int ((clock w2 - start_time) * 1000);
                    ld = build_lead_data (isoformat ev (clock w2)) lead ai rt sent
                in case save_lead ev ld w2 of
                     (Inl e, w3) \<Rightarrow> http_500 e w3
                   | (Inr new_id, w3) \<Rightarrow>
                       (Accepted \<lparr>success = True,
                                  response_message = thank_you lead rt,
                                  lead_id = Some new_id,
                                  response_time_ms = Some rt\<rparr>,
                        send_telegram_notification cfg ev ld w3))))"

text \<open>
  Requests served one after another on the same database, each with its own answers
  from the outside world.
\<close>

fun serve :: "config \<Rightarrow> (env \<times> LeadSubmission) list \<Rightarrow> world \<Rightarrow> outcome list \<times> world" where
  "serve cfg [] w = ([], w)"
| "serve cfg ((ev, lead) # reqs) w =
     (case submit_lead cfg ev lead w of
        (out, w1) \<Rightarrow> (case serve cfg reqs w1 of (outs, w2) \<Rightarrow> (out # outs, w2)))"

fun accepted_ids :: "outcome list \<Rightarrow> int list" where
  "accepted_ids [] = []"
| "accepted_ids (Accepted r # outs) =
     (case lead_id r of None \<Rightarrow> accepted_ids outs | Some i \<Rightarrow> i # accepted_ids outs)"
| "accepted_ids (Rejected code detail # outs) = accepted_ids outs"

section \<open>Notions used in the statements\<close>

text \<open>The identifiers of the stored records, in insertion order.\<close>

definition row_ids :: "world \<Rightarrow> int list" where
  "row_ids w = (case db w of None \<Rightarrow> [] | Some t \<Rightarrow> map col_id (table_rows t))"

text \<open>The largest identifier the store holds or has ever handed out.\<close>

definition high_water :: "world \<Rightarrow> int" where
  "high_water w = (case db w of None \<Rightarrow> 0 | Some t \<Rightarrow> next_rowid t - 1)"

text \<open>The stored records, in insertion order.\<close>

definition stored :: "world \<Rightarrow> lead_row list" where
  "stored w = (case db w of None \<Rightarrow> [] | Some t \<Rightarrow> table_rows t)"


section \<open>Concrete requests\<close>

text \<open>
  A configuration with every variable set, the submission of the specification's
  scenario, and outside worlds that answer in different ways. \<open>loads_table\<close> is
  \<^verbatim>\<open>json.loads\<close> on the replies used here; every other text is taken as not being JSON.
\<close>

definition cfg_full :: config where
  "cfg_full =
     \<lparr>ANTHROPIC_API_KEY = Some ''key'', SMTP_USER = Some ''aurora'',
      SMTP_PASSWORD = Some ''secret'', TELEGRAM_CHAT_ID = Some ''42''\<rparr>"

definition cfg_no_smtp :: config where
  "cfg_no_smtp = cfg_full\<lparr>SMTP_USER := None, SMTP_PASSWORD := None\<rparr>"

definition lead_ana :: LeadSubmission where
  "lead_ana =
     \<lparr>name = ''Ana'', email = ''ana@x.com'', company = ''Acme'',
      message = ''We need a demo ASAP, 500 seats'', phone = None\<rparr>"

definition reply_demo :: string where
  \<open>reply_demo = ''{"intent": "demo_request", "score": 9, "response": "Hi Ana..."}''\<close>

definition reply_bogus :: string where
  \<open>reply_bogus = ''{"intent": "bogus_value", "score": 7, "response": "Hi Ana..."}''\<close>

definition reply_malformed :: string where
  \<open>reply_malformed = ''{"intent": "bogus_value", "score": 99}''\<close>

definition reply_wrong_types :: string where
  \<open>reply_wrong_types = ''{"intent": 3, "score": "high", "response": null}''\<close>

definition reply_prose :: string where
  "reply_prose = ''I am sorry, I cannot help with that.''"

definition json_error :: exn where
  "json_error = Exn ''JSONDecodeError'' ''Expecting value: line 1 column 1 (char 0)''"

definition loads_table :: "string \<Rightarrow> exn + pyval" where
  "loads_table s =
     (if s = reply_demo
      then Inr (PDict [(''intent'', PStr ''demo_request''), (''score'', PInt 9),
                       (''response'', PStr ''Hi Ana...'')])
      else if s = reply_bogus
      then Inr (PDict [(''intent'', PStr ''bogus_value''), (''score'', PInt 7),
                       (''response'', PStr ''Hi Ana...'')])
      else if s = reply_malformed
      then Inr (PDict [(''intent'', PStr ''bogus_value''), (''score'', PInt 99)])
      else if s = reply_wrong_types
      then Inr (PDict [(''intent'', PInt 3), (''score'', PStr ''high''), (''response'', PNone)])
      else Inl json_error)"

definition durations :: "call \<Rightarrow> real" where
  "durations c = (case c of AiCall \<Rightarrow> 1 | SmtpSession \<Rightarrow> 1 / 2 | DbInsert \<Rightarrow> 2 | TelegramRun \<Rightarrow> 3)"

definition env_replying :: "string \<Rightarrow> env" where
  "env_replying reply =
     \<lparr>messages_create = (\<lambda>lead. Inr [TextBlock reply]),
      json_loads = loads_table,
      smtp_session = (\<lambda>to_email company_name body. None),
      telegram_run = (\<lambda>ld. None),
      insert_fault = None,
      isoformat = (\<lambda>t. ''2026-01-01T00:00:00''),
      duration = durations,
      tie_order = col_id\<rparr>"

definition env_ok :: env where
  "env_ok = env_replying reply_demo"

definition env_bogus :: env where
  "env_bogus = env_replying reply_bogus"

definition env_malformed :: env where
  "env_malformed = env_replying reply_malformed"

definition env_wrong_types :: env where
  "env_wrong_types = env_replying reply_wrong_types"

definition env_prose :: env where
  "env_prose = env_replying reply_prose"

definition smtp_error :: exn where
  "smtp_error = Exn ''SMTPAuthenticationError'' ''(535, Username and Password not accepted)''"

definition env_smtp_down :: env where
  "env_smtp_down = env_ok\<lparr>smtp_session := (\<lambda>to_email company_name body. Some smtp_error)\<rparr>"

definition telegram_error :: exn where
  "telegram_error = Exn ''TimeoutExpired'' ''Command timed out after 5 seconds''"

definition world0 :: world where
  "world0 = \<lparr>db = None, clock = 1700000000, stdout = []\<rparr>"

definition world1 :: world where
  "world1 = init_db world0"

definition requests3 :: "(env \<times> LeadSubmission) list" where
  "requests3 = [(env_ok, lead_ana), (env_prose, lead_ana), (env_smtp_down, lead_ana)]"

text \<open>The scenario step by step: the analysis of the demo reply, and the worlds after it.\<close>

definition demo_result :: ai_result where
  "demo_result =
     \<lparr>intent_classification = PStr ''demo_request'', lead_score = PInt 9,
      ai_response = PStr ''Hi Ana...''\<rparr>"

definition world_analysed :: world where
  "world_analysed = world1\<lparr>clock := 1700000001\<rparr>"

definition world_unsent :: world where
  "world_unsent = world_analysed\<lparr>stdout := [''SMTP not configured, skipping email send'']\<rparr>"

definition world_bounced :: world where
  "world_bounced =
     world_analysed\<lparr>clock := 3400000003 / 2,
       stdout := [''Email send failed: (535, Username and Password not accepted)'']\<rparr>"

definition failing_telegram :: "lead_data \<Rightarrow> exn option" where
  "failing_telegram ld = Some telegram_error"

definition accepted_demo :: LeadResponse where
  "accepted_demo =
     \<lparr>success = True, response_message = thank_you lead_ana 1500,
      lead_id = Some 1, response_time_ms = Some 1500\<rparr>"

text \<open>A reply without an intent.\<close>

definition reply_no_intent :: string where
  \<open>reply_no_intent = ''{"score": 8, "response": "Hello"}''\<close>

definition loads_no_intent :: "string \<Rightarrow> exn + pyval" where
  "loads_no_intent s =
     (if s = reply_no_intent then Inr (PDict [(''score'', PInt 8), (''response'', PStr ''Hello'')])
      else Inl json_error)"

definition env_no_intent :: env where
  "env_no_intent = (env_replying reply_no_intent)\<lparr>json_loads := loads_no_intent\<rparr>"

text \<open>
  Fifteen submissions, served by an outside world that answers within hundredths of a
  second (all fifteen rows are stamped in the same second) and by the slower one above
  (every row is stamped in a later second than the one before). Both return rows of
  equal \<^verbatim>\<open>created_at\<close> in rowid order, as SQLite does for a query with a
  \<^verbatim>\<open>LIMIT\<close>: it keeps the rows it scanned first.
\<close>

definition names15 :: "string list" where
  "names15 = [''L01'', ''L02'', ''L03'', ''L04'', ''L05'', ''L06'', ''L07'', ''L08'', ''L09'',
              ''L10'', ''L11'', ''L12'', ''L13'', ''L14'', ''L15'']"

definition requests_of :: "env \<Rightarrow> (env \<times> LeadSubmission) list" where
  "requests_of ev = map (\<lambda>n. (ev, lead_ana\<lparr>name := n\<rparr>)) names15"

definition env_fast :: env where
  "env_fast = env_ok\<lparr>duration := (\<lambda>c. 1 / 100)\<rparr>"

definition world_burst :: world where
  "world_burst = snd (serve cfg_full (requests_of env_fast) world1)"

definition world_spaced :: world where
  "world_spaced = snd (serve cfg_full (requests_of env_ok) world1)"


text \<open>The names in the \<^verbatim>\<open>recent_leads\<close> of \<^verbatim>\<open>get_stats\<close>, in the order returned.\<close>

definition recent_names :: "env \<Rightarrow> world \<Rightarrow> string list" where
  "recent_names ev w =
     (case get_stats ev w of Inl e \<Rightarrow> [] | Inr s \<Rightarrow> map rl_name (recent_leads s))"


definition world_sent :: world where
  "world_sent = world_analysed\<lparr>clock := 3400000003 / 2\<rparr>"

section \<open>Unfolding and evaluation\<close>

lemmas model_defs =
  submit_lead_def process_lead_with_ai_def parse_reply_def first_text_def py_index_def
  extract_json_def fence_json_def fence_def startswith_def read_fields_def dict_get_def
  send_email_response_def send_telegram_notification_def save_lead_def elapse_def
  py_print_def http_500_def build_lead_data_def thank_you_def str_int_def digit_char_def
  py_int_def bind_int_def INT64_MAX_def next_rowid_def new_row_def init_db_def truthy_def

lemmas data_defs =
  cfg_full_def cfg_no_smtp_def lead_ana_def reply_demo_def reply_bogus_def
  reply_malformed_def reply_wrong_types_def reply_prose_def json_error_def loads_table_def
  durations_def env_replying_def env_ok_def env_bogus_def env_malformed_def
  env_wrong_types_def env_prose_def smtp_error_def env_smtp_down_def telegram_error_def
  world0_def world1_def demo_result_def world_analysed_def
  world_unsent_def world_bounced_def failing_telegram_def accepted_demo_def
  world_sent_def

section \<open>What each step does to the database\<close>

lemma process_lead_with_ai_db: "db (snd (process_lead_with_ai cfg ev lead w)) = db w"
  by (simp add: process_lead_with_ai_def elapse_def Let_def split: sum.splits)

lemma send_email_response_db: "db (snd (send_email_response cfg ev a b c d w)) = db w"
  by (simp add: send_email_response_def elapse_def py_print_def Let_def split: option.splits)

lemma send_telegram_notification_db: "db (send_telegram_notification cfg ev ld w) = db w"
  by (simp add: send_telegram_notification_def elapse_def py_print_def Let_def
      split: option.splits)

lemma save_lead_Inl_db:
  "fst (save_lead ev ld w) = Inl e \<Longrightarrow> db (snd (save_lead ev ld w)) = db w"
  by (simp add: save_lead_def elapse_def Let_def split: option.splits sum.splits if_splits)

lemma save_lead_Inr:
  assumes "save_lead ev ld w = (Inr i, w')"
  shows "\<exists>t score intent resp. db w = Some t \<and> i = next_rowid t \<and> i \<le> INT64_MAX \<and>
           bind_param 7 (ld_lead_score ld) = Inr score \<and>
           bind_param 8 (ld_intent_classification ld) = Inr intent \<and>
           bind_param 11 (ld_ai_response ld) = Inr resp \<and>
           db w' = Some \<lparr>table_rows = table_rows t @
                     [new_row i \<lfloor>clock w\<rfloor> ld score intent (ld_response_time_ms ld) resp],
                   table_seq = i\<rparr>"
  using assms
  by (auto simp add: save_lead_def elapse_def bind_int_def Let_def
      split: option.splits sum.splits if_splits)

section \<open>The two ways through \<^verbatim>\<open>submit_lead\<close>\<close>

lemma submit_lead_analysis_failed:
  assumes "fst (process_lead_with_ai cfg ev lead w) = Inl e"
  shows "submit_lead cfg ev lead w = http_500 e (snd (process_lead_with_ai cfg ev lead w))"
proof -
  obtain w1 where p: "process_lead_with_ai cfg ev lead w = (Inl e, w1)"
    using assms by (cases "process_lead_with_ai cfg ev lead w") simp
  show ?thesis by (simp add: submit_lead_def p)
qed

lemma submit_lead_analysed:
  assumes p: "process_lead_with_ai cfg ev lead w = (Inr ai, w1)"
    and s: "send_email_response cfg ev (email lead) (name lead) (company lead)
              (ai_response ai) w1 = (sent, w2)"
  shows "submit_lead cfg ev lead w =
     (let rt = py_int ((clock w2 - clock w) * 1000);
          ld = build_lead_data (isoformat ev (clock w2)) lead ai rt sent
      in case save_lead ev ld w2 of
        (Inl e, w3) \<Rightarrow> http_500 e w3
      | (Inr new_id, w3) \<Rightarrow>
          (Accepted \<lparr>success = True, response_message = thank_you lead rt,
                     lead_id = Some new_id, response_time_ms = Some rt\<rparr>,
           send_telegram_notification cfg ev ld w3))"
  by (simp add: submit_lead_def p s)

lemma sent_split: "\<exists>sent w2. send_email_response cfg ev a b c d w1 = (sent, w2)"
  by (cases "send_email_response cfg ev a b c d w1") simp

text \<open>
  Every call of \<^verbatim>\<open>submit_lead\<close> either raises the 500 error and leaves the table alone,
  or appends one row and answers with that row's identifier and response time.
\<close>

lemma submit_lead_effect:
  assumes "submit_lead cfg ev lead w = (out, w')"
  shows "(\<exists>detail. out = Rejected 500 detail \<and> db w' = db w) \<or>
         (\<exists>t row i rt. db w = Some t \<and> i = next_rowid t \<and> col_id row = i \<and>
            col_response_time_ms row = Some rt \<and>
            db w' = Some \<lparr>table_rows = table_rows t @ [row], table_seq = i\<rparr> \<and>
            out = Accepted \<lparr>success = True, response_message = thank_you lead rt,
                            lead_id = Some i, response_time_ms = Some rt\<rparr>)"
proof (cases "process_lead_with_ai cfg ev lead w")
  case (Pair res w1)
  have dbw1: "db w1 = db w"
    using process_lead_with_ai_db [of cfg ev lead w] Pair by simp
  show ?thesis
  proof (cases res)
    case (Inl e)
    then have "submit_lead cfg ev lead w = http_500 e w1"
      using Pair by (simp add: submit_lead_def)
    then show ?thesis
      using assms dbw1 by (auto simp add: http_500_def py_print_def)
  next
    case (Inr ai)
    have p: "process_lead_with_ai cfg ev lead w = (Inr ai, w1)"
      using Pair Inr by simp
    obtain sent w2 where s:
      "send_email_response cfg ev (email lead) (name lead) (company lead) (ai_response ai) w1
         = (sent, w2)"
      using sent_split by blast
    have dbw2: "db w2 = db w"
      using send_email_response_db
        [of cfg ev "email lead" "name lead" "company lead" "ai_response ai" w1] s dbw1
      by simp
    define rt where "rt = py_int ((clock w2 - clock w) * 1000)"
    define ld where "ld = build_lead_data (isoformat ev (clock w2)) lead ai rt sent"
    have unf: "submit_lead cfg ev lead w =
        (case save_lead ev ld w2 of
           (Inl e, w3) \<Rightarrow> http_500 e w3
         | (Inr new_id, w3) \<Rightarrow>
             (Accepted \<lparr>success = True, response_message = thank_you lead rt,
                        lead_id = Some new_id, response_time_ms = Some rt\<rparr>,
              send_telegram_notification cfg ev ld w3))"
      unfolding rt_def ld_def using submit_lead_analysed [OF p s] by (simp only: Let_def)
    show ?thesis
    proof (cases "save_lead ev ld w2")
      case (Pair sres w3)
      note sv = this
      show ?thesis
      proof (cases sres)
        case (Inl e)
        have "db w3 = db w2"
          using save_lead_Inl_db [of ev ld w2 e] sv Inl by simp
        then show ?thesis
          using unf sv Inl assms dbw2 by (auto simp add: http_500_def py_print_def)
      next
        case (Inr i)
        from save_lead_Inr [of ev ld w2 i w3] sv Inr
        obtain t score intent resp where t: "db w2 = Some t" "i = next_rowid t"
          "db w3 = Some \<lparr>table_rows = table_rows t @
                     [new_row i \<lfloor>clock w2\<rfloor> ld score intent (ld_response_time_ms ld) resp],
                   table_seq = i\<rparr>"
          by auto
        have rtld: "ld_response_time_ms ld = rt"
          by (simp add: ld_def build_lead_data_def)
        have out: "out = Accepted \<lparr>success = True, response_message = thank_you lead rt,
                        lead_id = Some i, response_time_ms = Some rt\<rparr>"
          and w': "w' = send_telegram_notification cfg ev ld w3"
          using unf sv Inr assms by auto
        have "db w' = db w3"
          using w' by (simp add: send_telegram_notification_db)
        then show ?thesis
          using t out dbw2 rtld
          by (intro disjI2 exI [of _ t]
                exI [of _ "new_row i \<lfloor>clock w2\<rfloor> ld score intent (ld_response_time_ms ld) resp"]
                exI [of _ i] exI [of _ rt])
             (simp add: new_row_def)
      qed
    qed
  qed
qed

section \<open>Identifiers\<close>

lemma max_rowid_ge: "r \<in> set rs \<Longrightarrow> col_id r \<le> max_rowid rs"
  by (induction rs) auto

lemma max_rowid_append: "max_rowid (rs @ [r]) = max (max_rowid rs) (col_id r)"
  by (induction rs) auto

lemma row_ids_le_high_water: "j \<in> set (row_ids w) \<Longrightarrow> j \<le> high_water w"
  by (auto simp add: row_ids_def high_water_def next_rowid_def split: option.splits
      dest: max_rowid_ge)

lemma submit_lead_ids:
  assumes "submit_lead cfg ev lead w = (out, w')"
  shows "row_ids w' = row_ids w @ accepted_ids [out]
       \<and> high_water w \<le> high_water w'
       \<and> (\<forall>i \<in> set (accepted_ids [out]). high_water w < i \<and> i \<le> high_water w')"
  using submit_lead_effect [OF assms]
  by (auto simp add: row_ids_def high_water_def next_rowid_def max_rowid_append)

lemma serve_ids:
  "serve cfg reqs w = (outs, w') \<Longrightarrow>
     row_ids w' = row_ids w @ accepted_ids outs
   \<and> high_water w \<le> high_water w'
   \<and> (\<forall>i \<in> set (accepted_ids outs). high_water w < i)
   \<and> sorted_wrt (<) (accepted_ids outs)"
proof (induction reqs arbitrary: w outs)
  case Nil
  then show ?case by simp
next
  case (Cons req reqs)
  obtain ev lead where req: "req = (ev, lead)" by (cases req)
  obtain out w1 where st: "submit_lead cfg ev lead w = (out, w1)"
    by (cases "submit_lead cfg ev lead w")
  obtain outs1 where sv: "serve cfg reqs w1 = (outs1, w')" and outs: "outs = out # outs1"
    using Cons.prems req st by (auto split: prod.splits)
  note ih = Cons.IH [OF sv]
  note one = submit_lead_ids [OF st]
  have app: "accepted_ids (out # outs1) = accepted_ids [out] @ accepted_ids outs1"
    by (cases out) (auto split: option.splits)
  have single: "sorted_wrt (<) (accepted_ids [out])"
    by (cases out) (auto split: option.splits)
  have "\<forall>i \<in> set (accepted_ids [out]). \<forall>j \<in> set (accepted_ids outs1). i < j"
    using ih one by fastforce
  then show ?case
    using ih one single unfolding outs app
    by (auto simp add: sorted_wrt_append)
qed

section \<open>The responder, the notifier and the clock\<close>

lemma send_email_response_False_iff:
  "fst (send_email_response cfg ev a b c d w) = False \<longleftrightarrow>
     (\<not> truthy (SMTP_USER cfg) \<or> \<not> truthy (SMTP_PASSWORD cfg) \<or> smtp_session ev a c d \<noteq> None)"
  by (auto simp add: send_email_response_def Let_def split: option.splits)

lemma process_lead_with_ai_notifier:
  "process_lead_with_ai (cfg\<lparr>TELEGRAM_CHAT_ID := chat\<rparr>)
      (ev\<lparr>telegram_run := tr, duration := (duration ev)(TelegramRun := d)\<rparr>) lead w
     = process_lead_with_ai cfg ev lead w"
  by (simp add: process_lead_with_ai_def parse_reply_def elapse_def Let_def split: sum.splits)

lemma send_email_response_notifier:
  "send_email_response (cfg\<lparr>TELEGRAM_CHAT_ID := chat\<rparr>)
      (ev\<lparr>telegram_run := tr, duration := (duration ev)(TelegramRun := d)\<rparr>) a b c body w
     = send_email_response cfg ev a b c body w"
  by (simp add: send_email_response_def elapse_def Let_def split: option.splits)

lemma save_lead_notifier:
  "save_lead (ev\<lparr>telegram_run := tr, duration := (duration ev)(TelegramRun := d)\<rparr>) ld w
     = save_lead ev ld w"
  by (simp add: save_lead_def elapse_def Let_def split: option.splits sum.splits)








section \<open>The queries of \<^verbatim>\<open>get_stats\<close>\<close>

lemma insort_key_last:
  "(\<forall>y \<in> set ys. f y < f x) \<Longrightarrow> insort_key f x ys = ys @ [x]"
  by (induction ys) auto

lemma sort_key_strictly_decreasing:
  "sorted_wrt (\<lambda>a b. f b < f a) xs \<Longrightarrow> sort_key f xs = rev xs"
proof (induction xs)
  case Nil
  then show ?case by simp
next
  case (Cons x xs)
  then have "sort_key f xs = rev xs" by simp
  moreover have "\<forall>y \<in> set (rev xs). f y < f x" using Cons.prems by simp
  ultimately show ?case by (simp add: insort_key_last)
qed

lemma order_by_created_at_desc_sorted:
  "sorted_wrt (\<lambda>a b. col_created_at b \<le> col_created_at a) (order_by_created_at_desc tie rs)"
proof -
  have "sorted (map (\<lambda>r. (- col_created_at r, tie r)) (order_by_created_at_desc tie rs))"
    unfolding order_by_created_at_desc_def by (rule sorted_sort_key)
  then have "sorted_wrt (\<lambda>a b. (- col_created_at a, tie a) \<le> (- col_created_at b, tie b))
               (order_by_created_at_desc tie rs)"
    by (simp add: sorted_map)
  then show ?thesis
    by (rule sorted_wrt_mono_rel [rotated]) (auto simp add: less_eq_prod_def)
qed

lemma order_by_created_at_desc_rev:
  assumes "sorted_wrt (<) (map col_created_at rs)"
  shows "order_by_created_at_desc tie rs = rev rs"
proof -
  have "sorted_wrt (\<lambda>a b. col_created_at a < col_created_at b) rs"
    using assms by (simp add: sorted_wrt_map)
  then have "sorted_wrt (\<lambda>a b. (- col_created_at b, tie b) < (- col_created_at a, tie a)) rs"
    by (rule sorted_wrt_mono_rel [rotated]) (auto simp add: less_prod_def)
  then show ?thesis
    unfolding order_by_created_at_desc_def by (rule sort_key_strictly_decreasing)
qed

lemma select_recent_props:
  "length (select_recent tie rs) = min 10 (length rs)"
  "set (select_recent tie rs) \<subseteq> set rs"
  "sorted_wrt (\<lambda>a b. col_created_at b \<le> col_created_at a) (select_recent tie rs)"
  unfolding select_recent_def
    apply (simp add: order_by_created_at_desc_def min.commute)
   apply (metis order_by_created_at_desc_def set_sort set_take_subset)
  apply (rule sorted_wrt_take, rule order_by_created_at_desc_sorted)
  done

lemma select_recent_latest:
  assumes "r \<in> set rs" "r \<notin> set (select_recent tie rs)" "q \<in> set (select_recent tie rs)"
  shows "col_created_at r \<le> col_created_at q"
proof -
  let ?ys = "order_by_created_at_desc tie rs"
  have "set ?ys = set rs" by (simp add: order_by_created_at_desc_def)
  moreover have "set ?ys = set (take 10 ?ys) \<union> set (drop 10 ?ys)"
    by (metis append_take_drop_id set_append)
  ultimately have "r \<in> set (drop 10 ?ys)"
    using assms(1,2) unfolding select_recent_def by blast
  moreover have "sorted_wrt (\<lambda>a b. col_created_at b \<le> col_created_at a) (take 10 ?ys @ drop 10 ?ys)"
    using order_by_created_at_desc_sorted [of tie rs] by simp
  ultimately show ?thesis
    using assms(3) unfolding select_recent_def sorted_wrt_append by blast
qed

lemma get_stats_Inr:
  assumes "get_stats ev w = Inr s"
  shows "total_leads s = int (length (stored w))"
    and "emails_sent s = int (length (filter (\<lambda>r. col_email_sent r = Some 1) (stored w)))"
    and "email_success_rate s =
           (if 0 < total_leads s
            then real_of_int (emails_sent s) / real_of_int (total_leads s) * 100 else 0)"
    and "recent_leads s = map recent_entry (select_recent (tie_order ev) (stored w))"
  using assms
  by (auto simp add: get_stats_def stored_def select_count_def select_count_email_sent_def Let_def
      split: option.splits)

section \<open>The concrete scenarios\<close>

lemma analysis_fast:
  "process_lead_with_ai cfg_full env_fast lead w = (Inr demo_result, w\<lparr>clock := clock w + 1 / 100\<rparr>)"
  by (simp add: model_defs data_defs env_fast_def)

lemma analysis_ok:
  "process_lead_with_ai cfg_full env_ok lead w = (Inr demo_result, w\<lparr>clock := clock w + 1\<rparr>)"
  by (simp add: model_defs data_defs)

lemma cfg_full_fields:
  "truthy (ANTHROPIC_API_KEY cfg_full)" "truthy (SMTP_USER cfg_full)"
  "truthy (SMTP_PASSWORD cfg_full)" "truthy (TELEGRAM_CHAT_ID cfg_full)"
  by (simp_all add: cfg_full_def truthy_def)

lemma env_ok_fields:
  "smtp_session env_ok a b c = None" "telegram_run env_ok ld = None"
  "insert_fault env_ok = None" "isoformat env_ok x = ''2026-01-01T00:00:00''"
  "duration env_ok AiCall = 1" "duration env_ok SmtpSession = 1 / 2"
  "duration env_ok DbInsert = 2" "duration env_ok TelegramRun = 3"
  "tie_order env_ok = col_id"
  by (simp_all add: env_ok_def env_replying_def durations_def)

lemma env_fast_fields:
  "smtp_session env_fast a b c = None" "telegram_run env_fast ld = None"
  "insert_fault env_fast = None" "isoformat env_fast x = ''2026-01-01T00:00:00''"
  "duration env_fast k = 1 / 100" "tie_order env_fast = col_id"
  by (simp_all add: env_fast_def env_ok_def env_replying_def)

lemmas run_defs =
  submit_lead_def send_email_response_def send_telegram_notification_def save_lead_def
  elapse_def py_print_def build_lead_data_def py_int_def bind_int_def INT64_MAX_def
  next_rowid_def new_row_def init_db_def lead_ana_def demo_result_def world1_def world0_def
  requests_of_def names15_def stored_def cfg_full_fields

lemma stored_burst:
  "map (\<lambda>r. (col_id r, col_name r, col_created_at r)) (stored world_burst) =
     [(1, ''L01'', 1700000000), (2, ''L02'', 1700000000), (3, ''L03'', 1700000000),
      (4, ''L04'', 1700000000), (5, ''L05'', 1700000000), (6, ''L06'', 1700000000),
      (7, ''L07'', 1700000000), (8, ''L08'', 1700000000), (9, ''L09'', 1700000000),
      (10, ''L10'', 1700000000), (11, ''L11'', 1700000000), (12, ''L12'', 1700000000),
      (13, ''L13'', 1700000000), (14, ''L14'', 1700000000), (15, ''L15'', 1700000000)]"
  by (simp add: world_burst_def analysis_fast env_fast_fields run_defs)

lemma stored_spaced:
  "map (\<lambda>r. (col_id r, col_name r, col_created_at r)) (stored world_spaced) =
     [(1, ''L01'', 1700000001), (2, ''L02'', 1700000008), (3, ''L03'', 1700000014),
      (4, ''L04'', 1700000021), (5, ''L05'', 1700000027), (6, ''L06'', 1700000034),
      (7, ''L07'', 1700000040), (8, ''L08'', 1700000047), (9, ''L09'', 1700000053),
      (10, ''L10'', 1700000060), (11, ''L11'', 1700000066), (12, ''L12'', 1700000073),
      (13, ''L13'', 1700000079), (14, ''L14'', 1700000086), (15, ''L15'', 1700000092)]"
  by (simp add: world_spaced_def analysis_ok env_ok_fields run_defs)


lemma map_insort_key:
  "(\<And>y. f y = f' (g y)) \<Longrightarrow> map g (insort_key f x xs) = insort_key f' (g x) (map g xs)"
  by (induction xs) auto

lemma map_sort_key:
  "(\<And>y. f y = f' (g y)) \<Longrightarrow> map g (sort_key f xs) = sort_key f' (map g xs)"
  by (induction xs) (auto simp add: map_insort_key)

lemma select_recent_projected:
  "map (\<lambda>r. (col_id r, col_name r, col_created_at r)) (select_recent col_id rs) =
     take 10 (sort_key (\<lambda>(i, n, c). (- c, i))
       (map (\<lambda>r. (col_id r, col_name r, col_created_at r)) rs))"
proof -
  have "map (\<lambda>r. (col_id r, col_name r, col_created_at r))
          (sort_key (\<lambda>r. (- col_created_at r, col_id r)) rs)
        = sort_key (\<lambda>(i, n, c). (- c, i))
            (map (\<lambda>r. (col_id r, col_name r, col_created_at r)) rs)"
    by (rule map_sort_key) simp
  then have "take 10 (map (\<lambda>r. (col_id r, col_name r, col_created_at r))
          (sort_key (\<lambda>r. (- col_created_at r, col_id r)) rs))
        = take 10 (sort_key (\<lambda>(i, n, c). (- c, i))
            (map (\<lambda>r. (col_id r, col_name r, col_created_at r)) rs))"
    by (rule arg_cong)
  then show ?thesis
    by (simp add: select_recent_def order_by_created_at_desc_def take_map)
qed

lemma get_stats_defined: "stored w \<noteq> [] \<Longrightarrow> \<exists>s. get_stats ev w = Inr s"
  by (auto simp add: stored_def get_stats_def Let_def split: option.splits)

lemma recent_names_stored:
  assumes "stored w \<noteq> []"
  shows "recent_names ev w = map col_name (select_recent (tie_order ev) (stored w))"
proof -
  obtain s where s: "get_stats ev w = Inr s"
    using get_stats_defined [OF assms] by blast
  show ?thesis
    using get_stats_Inr(4) [OF s] s by (simp add: recent_names_def recent_entry_def comp_def)
qed

section \<open>The analysis of a JSON object\<close>

lemma analysis_of_object:
  assumes "truthy (ANTHROPIC_API_KEY cfg)"
    and "messages_create ev lead = Inr content"
    and "first_text content = Inr t"
    and "extract_json t = Inr j"
    and "json_loads ev j = Inr (PDict items)"
  shows "process_lead_with_ai cfg ev lead w =
           (Inr \<lparr>intent_classification = dict_get items ''intent'' (PStr ''unknown''),
                 lead_score = dict_get items ''score'' (PInt 5),
                 ai_response = dict_get items ''response'' (PStr [])\<rparr>,
            elapse ev AiCall w)"
  using assms by (simp add: process_lead_with_ai_def parse_reply_def read_fields_def Let_def)


lemma no_intent_chain:
  "truthy (ANTHROPIC_API_KEY cfg_full)"
  "messages_create env_no_intent lead_ana = Inr [TextBlock reply_no_intent]"
  "first_text [TextBlock reply_no_intent] = Inr reply_no_intent"
  "extract_json reply_no_intent = Inr reply_no_intent"
  "json_loads env_no_intent reply_no_intent
     = Inr (PDict [(''score'', PInt 8), (''response'', PStr ''Hello'')])"
  by (simp_all add: model_defs data_defs env_no_intent_def reply_no_intent_def loads_no_intent_def)

section \<open>The claims\<close>

subsection \<open>C1: a failed analysis rejects the request and stores nothing\<close>

text \<open>
  The analyzer fails when the API key is not set, when the provider call raises (an
  error of the provider or a timeout), and when the text of the reply is not JSON.
\<close>

lemma analyzer_fails_without_key:
  "\<not> truthy (ANTHROPIC_API_KEY cfg) \<Longrightarrow>
     fst (process_lead_with_ai cfg ev lead w) = Inl (Exn ''ValueError'' ''ANTHROPIC_API_KEY not set'')"
  by (simp add: process_lead_with_ai_def)

lemma analyzer_fails_on_provider_error:
  "truthy (ANTHROPIC_API_KEY cfg) \<Longrightarrow> messages_create ev lead = Inl e \<Longrightarrow>
     fst (process_lead_with_ai cfg ev lead w) = Inl e"
  by (simp add: process_lead_with_ai_def Let_def)

lemma analyzer_fails_on_bad_json:
  "truthy (ANTHROPIC_API_KEY cfg) \<Longrightarrow> messages_create ev lead = Inr content \<Longrightarrow>
   first_text content = Inr t \<Longrightarrow> extract_json t = Inr j \<Longrightarrow> json_loads ev j = Inl e \<Longrightarrow>
     fst (process_lead_with_ai cfg ev lead w) = Inl e"
  by (simp add: process_lead_with_ai_def parse_reply_def Let_def)

text \<open>
  C1. Whenever \<^verbatim>\<open>process_lead_with_ai\<close> raises, for whatever reason, \<^verbatim>\<open>submit_lead\<close>
  raises the HTTP error 500 whose detail is the text of that exception, and the table is
  what it was before the request: no row is appended.
\<close>

theorem analyzer_failure_is_fatal:
  assumes "fst (process_lead_with_ai cfg ev lead w) = Inl e"
  shows "fst (submit_lead cfg ev lead w) = Rejected 500 (exn_str e)
       \<and> db (snd (submit_lead cfg ev lead w)) = db w"
  using assms
  by (simp add: submit_lead_analysis_failed http_500_def py_print_def process_lead_with_ai_db)

theorem analyzer_failure_is_fatal_witness:
  "fst (process_lead_with_ai cfg_full env_prose lead_ana world1) = Inl json_error
   \<and> fst (submit_lead cfg_full env_prose lead_ana world1) = Rejected 500 (exn_str json_error)
   \<and> db (snd (submit_lead cfg_full env_prose lead_ana world1)) = db world1
   \<and> stored world1 = []"
proof -
  have h: "fst (process_lead_with_ai cfg_full env_prose lead_ana world1) = Inl json_error"
    by (simp add: model_defs data_defs)
  have "stored world1 = []"
    by (simp add: stored_def world1_def world0_def init_db_def)
  then show ?thesis
    using h analyzer_failure_is_fatal [OF h] by simp
qed

subsection \<open>C2: identifiers are unique and strictly increasing\<close>

text \<open>
  C2. When requests are served one after another on the same database, the identifiers
  in the table afterwards are the ones it held before followed by the identifiers of the
  accepted requests, in order; these are strictly increasing, pairwise distinct, and each
  is greater than every identifier the table held before.
\<close>

theorem lead_ids_strictly_increasing:
  assumes "serve cfg reqs w = (outs, w')"
  shows "row_ids w' = row_ids w @ accepted_ids outs
       \<and> sorted_wrt (<) (accepted_ids outs)
       \<and> distinct (accepted_ids outs)
       \<and> (\<forall>i \<in> set (accepted_ids outs). \<forall>j \<in> set (row_ids w). j < i)"
proof -
  note s = serve_ids [OF assms]
  have "distinct (accepted_ids outs)"
    using s strict_sorted_iff by blast
  moreover have "\<forall>i \<in> set (accepted_ids outs). \<forall>j \<in> set (row_ids w). j < i"
    using s row_ids_le_high_water by fastforce
  ultimately show ?thesis using s by simp
qed

theorem lead_ids_strictly_increasing_witness:
  "accepted_ids (fst (serve cfg_full requests3 world1)) = [1, 2]
   \<and> row_ids (snd (serve cfg_full requests3 world1))
       = row_ids world1 @ accepted_ids (fst (serve cfg_full requests3 world1))
   \<and> sorted_wrt (<) (accepted_ids (fst (serve cfg_full requests3 world1)))
   \<and> distinct (accepted_ids (fst (serve cfg_full requests3 world1)))"
proof -
  have e: "serve cfg_full requests3 world1
             = (fst (serve cfg_full requests3 world1), snd (serve cfg_full requests3 world1))"
    by simp
  have c: "accepted_ids (fst (serve cfg_full requests3 world1)) = [1, 2]"
    by (simp add: requests3_def model_defs data_defs)
  show ?thesis
    using lead_ids_strictly_increasing [OF e] c by blast
qed

subsection \<open>C3: a failed email is recorded, not fatal\<close>

text \<open>
  C3. When the analysis has succeeded, \<^verbatim>\<open>send_email_response\<close> has returned
  \<^verbatim>\<open>False\<close> (the credentials are missing, or the SMTP session raised: see
  \<open>send_email_response_False_iff\<close>) and \<^verbatim>\<open>save_lead\<close> has returned an identifier,
  \<^verbatim>\<open>submit_lead\<close> answers with the success envelope carrying that identifier, and the
  table has gained exactly one row, with that identifier and \<^verbatim>\<open>email_sent\<close> 0.
\<close>

theorem responder_failure_is_not_fatal:
  assumes p: "process_lead_with_ai cfg ev lead w = (Inr ai, w1)"
    and s: "send_email_response cfg ev (email lead) (name lead) (company lead)
              (ai_response ai) w1 = (False, w2)"
    and v: "save_lead ev (build_lead_data (isoformat ev (clock w2)) lead ai
              (py_int ((clock w2 - clock w) * 1000)) False) w2 = (Inr i, w3)"
  shows "\<exists>r row. fst (submit_lead cfg ev lead w) = Accepted r \<and> lead_id r = Some i
           \<and> stored (snd (submit_lead cfg ev lead w)) = stored w @ [row]
           \<and> col_id row = i \<and> col_email_sent row = Some 0"
proof -
  let ?rt = "py_int ((clock w2 - clock w) * 1000)"
  let ?ld = "build_lead_data (isoformat ev (clock w2)) lead ai ?rt False"
  have sub: "submit_lead cfg ev lead w =
      (Accepted \<lparr>success = True, response_message = thank_you lead ?rt,
                 lead_id = Some i, response_time_ms = Some ?rt\<rparr>,
       send_telegram_notification cfg ev ?ld w3)"
    using submit_lead_analysed [OF p s] v by (simp only: Let_def prod.case sum.case)
  from save_lead_Inr [OF v]
  obtain t score intent resp where t: "db w2 = Some t"
    "db w3 = Some \<lparr>table_rows = table_rows t @
               [new_row i \<lfloor>clock w2\<rfloor> ?ld score intent (ld_response_time_ms ?ld) resp],
             table_seq = i\<rparr>"
    by auto
  have "db w1 = db w"
    using process_lead_with_ai_db [of cfg ev lead w] p by simp
  moreover have "db w2 = db w1"
    using send_email_response_db
      [of cfg ev "email lead" "name lead" "company lead" "ai_response ai" w1] s by simp
  ultimately have dbw: "db w = Some t" using t by simp
  let ?row = "new_row i \<lfloor>clock w2\<rfloor> ?ld score intent (ld_response_time_ms ?ld) resp"
  have "stored (snd (submit_lead cfg ev lead w)) = stored w @ [?row]"
    using sub t dbw by (simp add: stored_def send_telegram_notification_db)
  moreover have "col_id ?row = i" "col_email_sent ?row = Some 0"
    by (simp_all add: new_row_def build_lead_data_def)
  ultimately show ?thesis
    using sub by (intro exI [of _ "\<lparr>success = True, response_message = thank_you lead ?rt,
                 lead_id = Some i, response_time_ms = Some ?rt\<rparr>"] exI [of _ ?row]) simp
qed

theorem responder_failure_is_not_fatal_witness:
  "process_lead_with_ai cfg_no_smtp env_ok lead_ana world1 = (Inr demo_result, world_analysed)
   \<and> send_email_response cfg_no_smtp env_ok (email lead_ana) (name lead_ana) (company lead_ana)
        (ai_response demo_result) world_analysed = (False, world_unsent)
   \<and> process_lead_with_ai cfg_full env_smtp_down lead_ana world1 = (Inr demo_result, world_analysed)
   \<and> send_email_response cfg_full env_smtp_down (email lead_ana) (name lead_ana) (company lead_ana)
        (ai_response demo_result) world_analysed = (False, world_bounced)
   \<and> (\<exists>r row. fst (submit_lead cfg_no_smtp env_ok lead_ana world1) = Accepted r
         \<and> lead_id r = Some 1
         \<and> stored (snd (submit_lead cfg_no_smtp env_ok lead_ana world1)) = stored world1 @ [row]
         \<and> col_id row = 1 \<and> col_email_sent row = Some 0)
   \<and> (\<exists>r row. fst (submit_lead cfg_full env_smtp_down lead_ana world1) = Accepted r
         \<and> lead_id r = Some 1
         \<and> stored (snd (submit_lead cfg_full env_smtp_down lead_ana world1)) = stored world1 @ [row]
         \<and> col_id row = 1 \<and> col_email_sent row = Some 0)"
proof -
  have p1: "process_lead_with_ai cfg_no_smtp env_ok lead_ana world1 = (Inr demo_result, world_analysed)"
    by (simp add: model_defs data_defs)
  have s1: "send_email_response cfg_no_smtp env_ok (email lead_ana) (name lead_ana)
              (company lead_ana) (ai_response demo_result) world_analysed = (False, world_unsent)"
    by (simp add: model_defs data_defs)
  let ?ld1 = "build_lead_data (isoformat env_ok (clock world_unsent)) lead_ana demo_result
                (py_int ((clock world_unsent - clock world1) * 1000)) False"
  have "fst (save_lead env_ok ?ld1 world_unsent) = Inr 1"
    by (simp add: model_defs data_defs)
  then have v1: "save_lead env_ok ?ld1 world_unsent = (Inr 1, snd (save_lead env_ok ?ld1 world_unsent))"
    by (metis prod.collapse)
  have p2: "process_lead_with_ai cfg_full env_smtp_down lead_ana world1 = (Inr demo_result, world_analysed)"
    by (simp add: model_defs data_defs)
  have s2: "send_email_response cfg_full env_smtp_down (email lead_ana) (name lead_ana)
              (company lead_ana) (ai_response demo_result) world_analysed = (False, world_bounced)"
    by (simp add: model_defs data_defs)
  let ?ld2 = "build_lead_data (isoformat env_smtp_down (clock world_bounced)) lead_ana demo_result
                (py_int ((clock world_bounced - clock world1) * 1000)) False"
  have "fst (save_lead env_smtp_down ?ld2 world_bounced) = Inr 1"
    by (simp add: model_defs data_defs)
  then have v2: "save_lead env_smtp_down ?ld2 world_bounced
                   = (Inr 1, snd (save_lead env_smtp_down ?ld2 world_bounced))"
    by (metis prod.collapse)
  show ?thesis
    using p1 s1 p2 s2 responder_failure_is_not_fatal [OF p1 s1 v1]
      responder_failure_is_not_fatal [OF p2 s2 v2]
    by blast
qed

subsection \<open>C4: the intent is defaulted only when it is missing\<close>




subsection \<open>C5: which replies the analyzer refuses\<close>

text \<open>
  The claim as stated fails: a JSON object with an intent outside the enumeration, a
  score of 99 and no reply text is analysed successfully, and so is one whose fields
  have the wrong types.
\<close>

theorem malformed_output_counterexample:
  "json_loads env_malformed reply_malformed =
       Inr (PDict [(''intent'', PStr ''bogus_value''), (''score'', PInt 99)])
   \<and> fst (process_lead_with_ai cfg_full env_malformed lead_ana world1) =
       Inr \<lparr>intent_classification = PStr ''bogus_value'', lead_score = PInt 99,
            ai_response = PStr []\<rparr>
   \<and> json_loads env_wrong_types reply_wrong_types =
       Inr (PDict [(''intent'', PInt 3), (''score'', PStr ''high''), (''response'', PNone)])
   \<and> fst (process_lead_with_ai cfg_full env_wrong_types lead_ana world1) =
       Inr \<lparr>intent_classification = PInt 3, lead_score = PStr ''high'', ai_response = PNone\<rparr>"
  by (simp add: model_defs data_defs)

text \<open>
  C5, amended. \<^verbatim>\<open>process_lead_with_ai\<close> returns a result exactly when the API key is
  set, the provider call returns, its first content block is a text block, the fence
  handling raises nothing and the text parses as a JSON object; the result then holds
  the object's \<^verbatim>\<open>intent\<close>, \<^verbatim>\<open>score\<close> and \<^verbatim>\<open>response\<close> as they are, with
  \<^verbatim>\<open>"unknown"\<close>, 5 and the empty text for a missing one. In every other case it
  raises. No type, enumeration or range is checked.
\<close>

theorem analyzer_succeeds_iff_json_object:
  "fst (process_lead_with_ai cfg ev lead w) = Inr ai \<longleftrightarrow>
     truthy (ANTHROPIC_API_KEY cfg)
     \<and> (\<exists>content t j items.
           messages_create ev lead = Inr content \<and> first_text content = Inr t
         \<and> extract_json t = Inr j \<and> json_loads ev j = Inr (PDict items)
         \<and> ai = \<lparr>intent_classification = dict_get items ''intent'' (PStr ''unknown''),
                  lead_score = dict_get items ''score'' (PInt 5),
                  ai_response = dict_get items ''response'' (PStr [])\<rparr>)"
proof
  assume a: "fst (process_lead_with_ai cfg ev lead w) = Inr ai"
  then have k: "truthy (ANTHROPIC_API_KEY cfg)"
    by (auto simp add: process_lead_with_ai_def split: if_splits)
  from a k obtain content where c: "messages_create ev lead = Inr content"
    and pr: "parse_reply ev content = Inr ai"
    by (auto simp add: process_lead_with_ai_def Let_def split: sum.splits)
  from pr obtain t where t: "first_text content = Inr t"
    by (auto simp add: parse_reply_def split: sum.splits)
  from pr t obtain j where j: "extract_json t = Inr j"
    by (auto simp add: parse_reply_def split: sum.splits)
  from pr t j obtain v where v: "json_loads ev j = Inr v" and rf: "read_fields v = Inr ai"
    by (auto simp add: parse_reply_def split: sum.splits)
  from rf obtain items where "v = PDict items"
    and "ai = \<lparr>intent_classification = dict_get items ''intent'' (PStr ''unknown''),
                  lead_score = dict_get items ''score'' (PInt 5),
                  ai_response = dict_get items ''response'' (PStr [])\<rparr>"
    by (cases v) (auto simp add: read_fields_def)
  then show "truthy (ANTHROPIC_API_KEY cfg)
     \<and> (\<exists>content t j items.
           messages_create ev lead = Inr content \<and> first_text content = Inr t
         \<and> extract_json t = Inr j \<and> json_loads ev j = Inr (PDict items)
         \<and> ai = \<lparr>intent_classification = dict_get items ''intent'' (PStr ''unknown''),
                  lead_score = dict_get items ''score'' (PInt 5),
                  ai_response = dict_get items ''response'' (PStr [])\<rparr>)"
    using k c t j v by blast
next
  assume "truthy (ANTHROPIC_API_KEY cfg)
     \<and> (\<exists>content t j items.
           messages_create ev lead = Inr content \<and> first_text content = Inr t
         \<and> extract_json t = Inr j \<and> json_loads ev j = Inr (PDict items)
         \<and> ai = \<lparr>intent_classification = dict_get items ''intent'' (PStr ''unknown''),
                  lead_score = dict_get items ''score'' (PInt 5),
                  ai_response = dict_get items ''response'' (PStr [])\<rparr>)"
  then show "fst (process_lead_with_ai cfg ev lead w) = Inr ai"
    using analysis_of_object [of cfg ev lead _ _ _ _ w] by auto
qed

theorem analyzer_succeeds_iff_json_object_witness:
  "fst (process_lead_with_ai cfg_full env_no_intent lead_ana world1) =
       Inr \<lparr>intent_classification = PStr ''unknown'', lead_score = PInt 8,
            ai_response = PStr ''Hello''\<rparr>
   \<and> fst (process_lead_with_ai cfg_full env_prose lead_ana world1) \<noteq> Inr demo_result"
proof -
  note c = no_intent_chain
  have "fst (process_lead_with_ai cfg_full env_no_intent lead_ana world1) =
       Inr \<lparr>intent_classification = PStr ''unknown'', lead_score = PInt 8,
            ai_response = PStr ''Hello''\<rparr>"
    unfolding analyzer_succeeds_iff_json_object
    using c by (auto simp add: dict_get_def)
  moreover have "fst (process_lead_with_ai cfg_full env_prose lead_ana world1) \<noteq> Inr demo_result"
    unfolding analyzer_succeeds_iff_json_object
    by (auto simp add: model_defs data_defs)
  ultimately show ?thesis by simp
qed

subsection \<open>C6: the notifier never changes the outcome\<close>

text \<open>
  C6. Whatever the Telegram step does (it completes, it raises, it takes any time, or no
  chat is configured so that it is skipped), \<^verbatim>\<open>submit_lead\<close> returns the same outcome,
  with the same identifier, response time and message, and leaves the same table.
\<close>

theorem notifier_never_affects_outcome:
  "fst (submit_lead (cfg\<lparr>TELEGRAM_CHAT_ID := chat\<rparr>)
          (ev\<lparr>telegram_run := tr, duration := (duration ev)(TelegramRun := d)\<rparr>) lead w)
     = fst (submit_lead cfg ev lead w)
   \<and> db (snd (submit_lead (cfg\<lparr>TELEGRAM_CHAT_ID := chat\<rparr>)
          (ev\<lparr>telegram_run := tr, duration := (duration ev)(TelegramRun := d)\<rparr>) lead w))
     = db (snd (submit_lead cfg ev lead w))"
  by (simp add: submit_lead_def process_lead_with_ai_notifier send_email_response_notifier
      save_lead_notifier send_telegram_notification_db Let_def
      split: prod.splits sum.splits)

theorem notifier_never_affects_outcome_witness:
  "fst (submit_lead (cfg_full\<lparr>TELEGRAM_CHAT_ID := None\<rparr>)
          (env_ok\<lparr>telegram_run := failing_telegram,
                  duration := (duration env_ok)(TelegramRun := 5)\<rparr>) lead_ana world1)
     = fst (submit_lead cfg_full env_ok lead_ana world1)
   \<and> fst (submit_lead cfg_full env_ok lead_ana world1)
     = Accepted \<lparr>success = True, response_message = thank_you lead_ana 1500,
                 lead_id = Some 1, response_time_ms = Some 1500\<rparr>"
proof -
  have "fst (submit_lead cfg_full env_ok lead_ana world1)
     = Accepted \<lparr>success = True, response_message = thank_you lead_ana 1500,
                 lead_id = Some 1, response_time_ms = Some 1500\<rparr>"
    by (simp add: model_defs data_defs)
  then show ?thesis
    using notifier_never_affects_outcome
      [where cfg = cfg_full and chat = None and ev = env_ok and tr = failing_telegram
         and d = 5 and lead = lead_ana and w = world1]
    by simp
qed

subsection \<open>C7: the email success rate\<close>



subsection \<open>C8: the recent leads\<close>

text \<open>
  What the query guarantees for every table. When \<^verbatim>\<open>get_stats\<close> answers,
  \<^verbatim>\<open>recent_leads\<close> has the smaller of ten and the number of rows as its length; its
  \<^verbatim>\<open>timestamp\<close>s (the \<^verbatim>\<open>created_at\<close> of the rows) never increase along the list;
  every entry is the reduction of a stored row to name, company, score, response time
  and timestamp, and no row left out has a later \<^verbatim>\<open>created_at\<close> than a row returned.
  When the \<^verbatim>\<open>created_at\<close> of the rows strictly increase in insertion order, the
  entries are exactly the last ten rows in reverse insertion order.
\<close>

lemma recent_leads_latest_first:
  assumes "get_stats ev w = Inr s"
  shows "length (recent_leads s) = min 10 (length (stored w))
       \<and> sorted_wrt (\<ge>) (map rl_timestamp (recent_leads s))
       \<and> (\<exists>rs. recent_leads s = map recent_entry rs \<and> set rs \<subseteq> set (stored w)
             \<and> (\<forall>r \<in> set (stored w) - set rs. \<forall>q \<in> set rs.
                   col_created_at r \<le> col_created_at q))
       \<and> (sorted_wrt (<) (map col_created_at (stored w)) \<longrightarrow>
             recent_leads s = map recent_entry (take 10 (rev (stored w))))"
proof -
  note g = get_stats_Inr [OF assms]
  let ?rs = "select_recent (tie_order ev) (stored w)"
  have len: "length (recent_leads s) = min 10 (length (stored w))"
    using g(4) by (simp add: select_recent_props(1))
  have "sorted_wrt (\<lambda>a b. col_created_at b \<le> col_created_at a) ?rs"
    by (rule select_recent_props(3))
  then have srt: "sorted_wrt (\<ge>) (map rl_timestamp (recent_leads s))"
    using g(4) by (simp add: sorted_wrt_map recent_entry_def)
  have ex: "\<exists>rs. recent_leads s = map recent_entry rs \<and> set rs \<subseteq> set (stored w)
             \<and> (\<forall>r \<in> set (stored w) - set rs. \<forall>q \<in> set rs.
                   col_created_at r \<le> col_created_at q)"
    using g(4) select_recent_props(2) [of "tie_order ev" "stored w"]
      select_recent_latest [of _ "stored w" "tie_order ev"]
    by (intro exI [of _ ?rs]) auto
  have "recent_leads s = map recent_entry (take 10 (rev (stored w)))"
    if "sorted_wrt (<) (map col_created_at (stored w))"
    using g(4) order_by_created_at_desc_rev [OF that] by (simp add: select_recent_def)
  then show ?thesis using len srt ex by blast
qed

lemma recent_leads_latest_first_example:
  "length (stored world_spaced) = 15
   \<and> sorted_wrt (<) (map col_created_at (stored world_spaced))
   \<and> recent_names env_ok world_spaced =
       [''L15'', ''L14'', ''L13'', ''L12'', ''L11'', ''L10'', ''L09'', ''L08'', ''L07'', ''L06'']"
proof -
  let ?p = "\<lambda>r. (col_id r, col_name r, col_created_at r)"
  note b = stored_spaced
  have len: "length (stored world_spaced) = 15"
    using arg_cong [OF b, of length] by simp
  then have ne: "stored world_spaced \<noteq> []" by auto
  have "map col_created_at (stored world_spaced)
          = map (\<lambda>p. snd (snd p)) (map ?p (stored world_spaced))"
    by simp
  then have inc: "sorted_wrt (<) (map col_created_at (stored world_spaced))"
    unfolding b by simp
  obtain s where s: "get_stats env_ok world_spaced = Inr s"
    using get_stats_defined [OF ne] by blast
  have "recent_leads s = map recent_entry (take 10 (rev (stored world_spaced)))"
    using recent_leads_latest_first [OF s] inc by blast
  then have "recent_names env_ok world_spaced
          = map (\<lambda>p. fst (snd p)) (take 10 (rev (map ?p (stored world_spaced))))"
    using s by (simp add: recent_names_def recent_entry_def take_map rev_map comp_def)
  then have "recent_names env_ok world_spaced =
       [''L15'', ''L14'', ''L13'', ''L12'', ''L11'', ''L10'', ''L09'', ''L08'', ''L07'', ''L06'']"
    unfolding b by simp
  then show ?thesis using len inc by simp
qed

text \<open>
  C8. The recent leads are meant to be the last ten, latest first (the comment of line
  132 says so), but \<^verbatim>\<open>created_at\<close> has a resolution of one second and the query orders
  by nothing else. Fifteen leads saved within one second all carry the same
  \<^verbatim>\<open>created_at\<close>; \<^verbatim>\<open>get_stats\<close> then returns the first ten of them in insertion
  order, where the claim asks for the last ten in reverse insertion order: the five
  latest leads are missing and the order is oldest first.
\<close>

theorem recent_leads_same_second:
  "length (stored world_burst) = 15
   \<and> map col_created_at (stored world_burst) = replicate 15 1700000000
   \<and> recent_names env_fast world_burst =
       [''L01'', ''L02'', ''L03'', ''L04'', ''L05'', ''L06'', ''L07'', ''L08'', ''L09'', ''L10'']
   \<and> map col_name (take 10 (rev (stored world_burst))) =
       [''L15'', ''L14'', ''L13'', ''L12'', ''L11'', ''L10'', ''L09'', ''L08'', ''L07'', ''L06'']"
proof -
  let ?p = "\<lambda>r. (col_id r, col_name r, col_created_at r)"
  note b = stored_burst
  have len: "length (stored world_burst) = 15"
    using arg_cong [OF b, of length] by simp
  then have ne: "stored world_burst \<noteq> []" by auto
  have "map col_created_at (stored world_burst)
          = map (\<lambda>p. snd (snd p)) (map ?p (stored world_burst))"
    by simp
  then have stamps: "map col_created_at (stored world_burst) = replicate 15 1700000000"
    unfolding b by (simp add: eval_nat_numeral)
  have "recent_names env_fast world_burst
          = map (\<lambda>p. fst (snd p)) (map ?p (select_recent col_id (stored world_burst)))"
    using recent_names_stored [OF ne, of env_fast] by (simp add: env_fast_fields comp_def)
  then have recent: "recent_names env_fast world_burst =
       [''L01'', ''L02'', ''L03'', ''L04'', ''L05'', ''L06'', ''L07'', ''L08'', ''L09'', ''L10'']"
    unfolding select_recent_projected b by simp
  have "map col_name (take 10 (rev (stored world_burst)))
          = map (\<lambda>p. fst (snd p)) (take 10 (rev (map ?p (stored world_burst))))"
    by (simp add: take_map rev_map comp_def)
  then have last10: "map col_name (take 10 (rev (stored world_burst))) =
       [''L15'', ''L14'', ''L13'', ''L12'', ''L11'', ''L10'', ''L09'', ''L08'', ''L07'', ''L06'']"
    unfolding b by simp
  show ?thesis using len stamps recent last10 by simp
qed

subsection \<open>C9: the response time covers the analysis and the email only\<close>



subsection \<open>C10: the stored response time is the returned one\<close>

text \<open>
  C10. An accepted request appends exactly one row; its identifier is the
  \<^verbatim>\<open>lead_id\<close> of the answer and its \<^verbatim>\<open>response_time_ms\<close> is the
  \<^verbatim>\<open>response_time_ms\<close> of the answer.
\<close>

theorem persisted_response_time_is_returned:
  assumes "submit_lead cfg ev lead w = (Accepted r, w')"
  shows "\<exists>row i rt. stored w' = stored w @ [row]
           \<and> lead_id r = Some i \<and> col_id row = i
           \<and> response_time_ms r = Some rt \<and> col_response_time_ms row = Some rt"
  using submit_lead_effect [OF assms]
  by (auto simp add: stored_def)

theorem persisted_response_time_is_returned_witness:
  "fst (submit_lead cfg_full env_ok lead_ana world1) = Accepted accepted_demo
   \<and> (\<exists>row. stored (snd (submit_lead cfg_full env_ok lead_ana world1)) = stored world1 @ [row]
         \<and> col_id row = 1 \<and> col_response_time_ms row = Some 1500)"
proof -
  have f: "fst (submit_lead cfg_full env_ok lead_ana world1) = Accepted accepted_demo"
    by (simp add: model_defs data_defs)
  then have h: "submit_lead cfg_full env_ok lead_ana world1
      = (Accepted accepted_demo, snd (submit_lead cfg_full env_ok lead_ana world1))"
    by (metis prod.collapse)
  show ?thesis
    using f persisted_response_time_is_returned [OF h]
    by (auto simp add: accepted_demo_def)
qed

end
